theory Spec2Isabelle
  imports Main
begin

section \<open>Errors\<close>

text \<open>
  Every \<^verbatim>\<open>raise\<close> of \<^verbatim>\<open>gemm.py\<close>, and every exception the interpreter
  raises on the way (indexing an empty sequence, \<^verbatim>\<open>len(None)\<close>, reading a local
  variable that was never assigned, a missing dictionary key, an attribute of
  \<^verbatim>\<open>None\<close>), is a value of this type. A \<^verbatim>\<open>ValueError\<close> and a
  \<^verbatim>\<open>SyntaxError\<close> carry the fixed part of the message the source gives them.
\<close>

datatype error =
    ValueError string
  | SyntaxError string
  | TypeError string
  | IndexError
  | KeyError string
  | AttributeError
  | UnboundLocalError string

definition ebind :: "error + 'a \<Rightarrow> ('a \<Rightarrow> error + 'b) \<Rightarrow> error + 'b" where
  "ebind m f = (case m of Inl e \<Rightarrow> Inl e | Inr x \<Rightarrow> f x)"

section \<open>Batch detection\<close>

text \<open>
  \<^verbatim>\<open>_get_batchmm_opts\<close> returns a dictionary that is either empty or has exactly
  the keys \<^verbatim>\<open>sa\<close>, \<^verbatim>\<open>sb\<close>, \<^verbatim>\<open>sc\<close> and \<^verbatim>\<open>b\<close>: the empty dictionary
  is \<open>None\<close>, the other one a record (field \<open>bm_sa\<close> for the key \<^verbatim>\<open>sa\<close>, and
  so on). Dimensions and strides are integers.
  \<^verbatim>\<open>c_shape\<close> may be \<^verbatim>\<open>None\<close>.
\<close>

record batchmm_opts =
  bm_sa :: int
  bm_sb :: int
  bm_sc :: int
  bm_b :: int

text \<open>\<^verbatim>\<open>xs[0]\<close>, which raises on an empty sequence.\<close>

definition index0 :: "int list \<Rightarrow> error + int" where
  "index0 xs = (case xs of [] \<Rightarrow> Inl IndexError | x # _ \<Rightarrow> Inr x)"

text \<open>The truth value of \<^verbatim>\<open>batch\<close>: \<^verbatim>\<open>None\<close> and \<^verbatim>\<open>0\<close> are false.\<close>

definition truthy_batch :: "int option \<Rightarrow> bool" where
  "truthy_batch batch = (case batch of None \<Rightarrow> False | Some n \<Rightarrow> n \<noteq> 0)"

text \<open>The truth value of \<^verbatim>\<open>c_shape\<close>: \<^verbatim>\<open>None\<close> and the empty sequence are false.\<close>

definition truthy_shape :: "int list option \<Rightarrow> bool" where
  "truthy_shape s = (case s of None \<Rightarrow> False | Some xs \<Rightarrow> xs \<noteq> [])"

definition len_opt :: "int list option \<Rightarrow> nat" where
  "len_opt s = (case s of None \<Rightarrow> 0 | Some xs \<Rightarrow> length xs)"

definition mismatch_msg :: string where
  "mismatch_msg = ''Batch size mismatch for matrix multiplication''"

definition too_large_msg :: string where
  "too_large_msg = ''Tensor dimensions too large for (batched) matrix multiplication''"

definition get_batchmm_opts ::
  "int list \<Rightarrow> int list \<Rightarrow> int list \<Rightarrow> int list \<Rightarrow> int list option \<Rightarrow> int list
     \<Rightarrow> error + batchmm_opts option" where
  "get_batchmm_opts a_shape a_strides b_shape b_strides c_shape c_strides =
     (if length a_shape > 3 \<or> length b_shape > 3 \<or> (truthy_shape c_shape \<and> len_opt c_shape > 3)
      then Inl (ValueError too_large_msg)
      else if length a_shape \<le> 2 \<and> length b_shape \<le> 2 then Inr None
      else
        ebind (if length a_shape = 3
               then ebind (index0 a_strides) (\<lambda>s. Inr (Some (a_shape ! 0), s))
               else Inr (None, 0)) (\<lambda>(batch, stride_a).
        ebind (if length b_shape = 3
               then (if truthy_batch batch \<and> batch \<noteq> Some (b_shape ! 0)
                     then Inl (ValueError mismatch_msg)
                     else ebind (index0 b_strides) (\<lambda>s. Inr (Some (b_shape ! 0), s)))
               else Inr (batch, 0)) (\<lambda>(batch, stride_b).
        ebind (if truthy_shape c_shape \<and> len_opt c_shape = 3
               then (if truthy_batch batch \<and> batch \<noteq> Some (the c_shape ! 0)
                     then Inl (ValueError mismatch_msg)
                     else ebind (index0 c_strides) (\<lambda>s. Inr (Some (the c_shape ! 0), s)))
               else Inr (batch, 0)) (\<lambda>(batch, stride_c).
        (case batch of
           None \<Rightarrow> Inr None
         | Some n \<Rightarrow> Inr (Some \<lparr>bm_sa = stride_a, bm_sb = stride_b, bm_sc = stride_c, bm_b = n\<rparr>))))))"

section \<open>The graph around a Gemm node\<close>

text \<open>
  The graph classes are the surrounding library's; the model keeps of them what
  \<^verbatim>\<open>gemm.py\<close> reads. An edge at the node carries its connector at the node
  (\<^verbatim>\<open>dst_conn\<close> of an input edge, \<^verbatim>\<open>src_conn\<close> of an output edge), the size of
  its memlet's subset after \<^verbatim>\<open>squeeze()\<close>, the name of its memlet's data, and the
  data name of the node at the far end of its memlet path when that node is an access
  node.
\<close>

record edge =
  conn :: string
  squeezed_size :: "int list"
  memlet_data :: string
  path_access :: "string option"

record sdfg_state =
  in_edges :: "edge list"
  out_edges :: "edge list"

datatype nptype =
    np_bool | np_int8 | np_int16 | np_int32 | np_int64
  | np_uint8 | np_uint16 | np_uint32 | np_uint64
  | np_float16 | np_float32 | np_float64 | np_complex64 | np_complex128

text \<open>
  A \<^verbatim>\<open>dace\<close> typeclass wraps a numpy scalar type, which its attribute
  \<^verbatim>\<open>type\<close> returns; \<^verbatim>\<open>dace.float32\<close> is \<open>Typeclass np_float32\<close>.
\<close>

datatype typeclass = Typeclass (ttype: nptype)

abbreviation "dace_float16 \<equiv> Typeclass np_float16"
abbreviation "dace_float32 \<equiv> Typeclass np_float32"
abbreviation "dace_float64 \<equiv> Typeclass np_float64"
abbreviation "dace_complex64 \<equiv> Typeclass np_complex64"
abbreviation "dace_complex128 \<equiv> Typeclass np_complex128"

text \<open>
  The objects \<^verbatim>\<open>_is_complex\<close> can be given: a numpy scalar type, a builtin type of
  Python, or an object with a method \<^verbatim>\<open>is_complex\<close> (with what the method returns).
\<close>

datatype tyobj =
    Np nptype
  | Py_int | Py_float | Py_complex | Py_bool
  | Has_is_complex bool

text \<open>
  \<^verbatim>\<open>alpha\<close> and \<^verbatim>\<open>beta\<close> are numbers of any constant type, floating point among
  them. The source compares them with \<^verbatim>\<open>1.0\<close> and \<^verbatim>\<open>0\<close>, takes their type and
  prints them; a scalar is the record of these observations: its type, whether it equals
  \<^verbatim>\<open>1.0\<close>, whether it equals \<^verbatim>\<open>0\<close>, the text of \<^verbatim>\<open>str(value)\<close>, and the
  texts of the real and imaginary parts of \<^verbatim>\<open>complex(value)\<close>.
\<close>

record scalar =
  s_type :: tyobj
  s_is_one :: bool
  s_is_zero :: bool
  s_str :: string
  s_real :: string
  s_imag :: string

datatype storage_type =
    Default | Immaterial | Register
  | CPU_Pinned | CPU_Heap | CPU_Stack
  | GPU_Global | GPU_Shared | GPU_Stack
  | FPGA_Global | FPGA_Local | FPGA_Registers

record array_desc =
  arr_shape :: "int list"
  arr_strides :: "int list"
  arr_dtype :: typeclass
  arr_storage :: storage_type
  arr_transient :: bool

section \<open>The Gemm node\<close>

record gemm =
  name :: string
  dtype :: "typeclass option"
  transA :: bool
  transB :: bool
  alpha :: scalar
  beta :: scalar
  in_connectors :: "string set"
  out_connectors :: "string set"

text \<open>\<^verbatim>\<open>Gemm.__init__\<close> (the location is not modelled).\<close>

definition Gemm :: "string \<Rightarrow> typeclass option \<Rightarrow> bool \<Rightarrow> bool \<Rightarrow> scalar \<Rightarrow> scalar \<Rightarrow> gemm" where
  "Gemm nm dt ta tb al be =
     \<lparr>name = nm, dtype = dt, transA = ta, transB = tb, alpha = al, beta = be,
      in_connectors = {''_a'', ''_b'', ''_c''}, out_connectors = {''_y''}\<rparr>"

text \<open>
  The loop of \<^verbatim>\<open>validate\<close> over the input edges. \<^verbatim>\<open>size0\<close> and \<^verbatim>\<open>size1\<close> are
  unbound (\<open>None\<close>) until an edge assigns them; \<^verbatim>\<open>size2\<close> starts as Python's
  \<^verbatim>\<open>None\<close>.
\<close>

fun assign_sizes ::
  "edge list \<Rightarrow> int list option \<times> int list option \<times> int list option
     \<Rightarrow> int list option \<times> int list option \<times> int list option" where
  "assign_sizes [] s = s"
| "assign_sizes (e # es) (size0, size1, size2) =
     assign_sizes es
       (if conn e = ''_a'' then Some (squeezed_size e) else size0,
        if conn e = ''_b'' then Some (squeezed_size e) else size1,
        if conn e = ''_c'' then Some (squeezed_size e) else size2)"

definition inputs_msg :: string where
  "inputs_msg = ''Expected 2 or 3 inputs to gemm''"

definition outputs_msg :: string where
  "outputs_msg = ''Expected exactly one output from matrix-matrix product''"

definition matrices_msg :: string where
  "matrices_msg = ''matrix-matrix product only supported on matrices''"

definition k_dim_msg :: string where
  "k_dim_msg = ''Inputs to matrix-matrix product must agree in the k-dimension''"

definition mn_dim_msg :: string where
  "mn_dim_msg = ''Output to matrix-matrix product must agree in the m and n dimensions''"

definition c_size_msg :: string where
  "c_size_msg = ''Sizes of input and output C-matrix do not match''"

definition none_len_msg :: string where
  "none_len_msg = ''object of type NoneType has no len()''"

text \<open>
  \<^verbatim>\<open>Gemm.validate\<close>. The three operands of the \<^verbatim>\<open>or\<close> in the rank test are
  evaluated in order: reading an unbound \<^verbatim>\<open>size0\<close> or \<^verbatim>\<open>size1\<close> raises, and so
  does \<^verbatim>\<open>len(size2)\<close> when \<^verbatim>\<open>size2\<close> is still \<^verbatim>\<open>None\<close>.
\<close>

definition validate :: "gemm \<Rightarrow> sdfg_state \<Rightarrow> error + unit" where
  "validate self state =
     (if length (in_edges state) \<notin> {2, 3} then Inl (ValueError inputs_msg)
      else (case assign_sizes (in_edges state) (None, None, None) of (size0, size1, size2) \<Rightarrow>
        (if length (out_edges state) \<noteq> 1 then Inl (ValueError outputs_msg)
         else (case size0 of None \<Rightarrow> Inl (UnboundLocalError ''size0'') | Some s0 \<Rightarrow>
          (if length s0 \<noteq> 2 then Inl (ValueError matrices_msg)
           else (case size1 of None \<Rightarrow> Inl (UnboundLocalError ''size1'') | Some s1 \<Rightarrow>
            (if length s1 \<noteq> 2 then Inl (ValueError matrices_msg)
             else (case size2 of None \<Rightarrow> Inl (TypeError none_len_msg) | Some s2 \<Rightarrow>
              (if length s2 \<noteq> 2 then Inl (ValueError matrices_msg)
               else if s0 ! 1 \<noteq> s1 ! 0 then Inl (ValueError k_dim_msg)
               else (let size3 = squeezed_size (out_edges state ! 0) in
                 if length size3 \<noteq> 2 then Inl (ValueError matrices_msg)
                 else if size3 \<noteq> [s0 ! 0, s1 ! 1] then Inl (ValueError mn_dim_msg)
                 else if s2 \<noteq> size3 then Inl (ValueError c_size_msg)
                 else Inr ()))))))))))"

section \<open>What the surrounding library provides\<close>

text \<open>
  The functions and tables that \<^verbatim>\<open>gemm.py\<close> imports are parameters of the model.
  \<^item> \<open>DTYPE_TO_TYPECLASS\<close>: the table \<^verbatim>\<open>dace.DTYPE_TO_TYPECLASS\<close>;
  \<^item> \<open>to_string\<close>: the method \<^verbatim>\<open>to_string()\<close> of a typeclass;
  \<^item> \<open>ctype\<close>: the attribute \<^verbatim>\<open>ctype\<close> of a typeclass;
  \<^item> \<open>result_type\<close>: \<^verbatim>\<open>np.result_type(t1, t2).type\<close>;
  \<^item> \<open>to_blastype\<close>: \<^verbatim>\<open>blas_helpers.to_blastype\<close>, which may raise;
  \<^item> \<open>get_gemm_opts\<close>: \<^verbatim>\<open>blas_helpers.get_gemm_opts\<close>, which may raise;
  \<^item> \<open>get_matmul_inputs\<close>: \<^verbatim>\<open>matmul._get_matmul_inputs\<close>, which may raise; every
    call site unpacks from its result what it names (array descriptor, shape and strides
    of \<^verbatim>\<open>_a\<close> and \<^verbatim>\<open>_b\<close>, and of \<^verbatim>\<open>_c\<close> when there is one);
  \<^item> \<open>sym2cpp\<close>, \<open>symstr\<close>, \<open>str_dim\<close>: the three ways a dimension is printed
    (\<^verbatim>\<open>sym2cpp\<close>, \<^verbatim>\<open>symstr\<close>, and Python's \<^verbatim>\<open>%s\<close>);
  \<^item> \<open>handle_setup_code\<close>: \<^verbatim>\<open>environments.cublas.cuBLAS.handle_setup_code\<close>;
  \<^item> \<open>temp_data_name\<close>: the name \<^verbatim>\<open>sdfg.add_temp_transient\<close> gives the array it
    declares, from the names declared so far.
  The name \<^verbatim>\<open>np\<close> is read as the numpy module.
\<close>

record operand =
  op_array :: array_desc
  op_shape :: "int list"
  op_strides :: "int list"

record matmul_inputs =
  in_a :: operand
  in_b :: operand
  in_c :: "operand option"

text \<open>
  What \<^verbatim>\<open>get_gemm_opts\<close> returns: the keys \<^verbatim>\<open>swap\<close>, \<^verbatim>\<open>ta\<close>, \<^verbatim>\<open>tb\<close>,
  \<^verbatim>\<open>lda\<close>, \<^verbatim>\<open>ldb\<close> and \<^verbatim>\<open>ldc\<close> that \<^verbatim>\<open>_get_codegen_gemm_opts\<close> reads.
\<close>

record layout_opts =
  lo_swap :: bool
  lo_ta :: string
  lo_tb :: string
  lo_lda :: int
  lo_ldb :: int
  lo_ldc :: int

record externals =
  DTYPE_TO_TYPECLASS :: "tyobj \<Rightarrow> typeclass option"
  to_string :: "typeclass \<Rightarrow> string"
  ctype :: "typeclass \<Rightarrow> string"
  result_type :: "tyobj \<Rightarrow> tyobj \<Rightarrow> tyobj"
  to_blastype :: "nptype \<Rightarrow> error + string"
  get_gemm_opts :: "int list \<Rightarrow> int list \<Rightarrow> int list \<Rightarrow> error + layout_opts"
  get_matmul_inputs :: "gemm \<Rightarrow> sdfg_state \<Rightarrow> (string \<Rightarrow> array_desc option) \<Rightarrow> error + matmul_inputs"
  sym2cpp :: "int \<Rightarrow> string"
  symstr :: "int \<Rightarrow> string"
  str_dim :: "int \<Rightarrow> string"
  handle_setup_code :: "gemm \<Rightarrow> string"
  temp_data_name :: "string list \<Rightarrow> string"

section \<open>Scalars as typed literals\<close>

fun is_complex :: "tyobj \<Rightarrow> bool" where
  "is_complex (Has_is_complex r) = r"
| "is_complex t = (t \<in> {Np np_complex64, Np np_complex128})"

definition complex_beta_msg :: string where
  "complex_beta_msg = ''Cannot use complex beta with non-complex array''"

text \<open>\<^verbatim>\<open>dace.DTYPE_TO_TYPECLASS[dtype].to_string()\<close>; a missing key raises.\<close>

definition typeclass_name :: "externals \<Rightarrow> tyobj \<Rightarrow> error + string" where
  "typeclass_name ext t =
     (case DTYPE_TO_TYPECLASS ext t of
        None \<Rightarrow> Inl (KeyError ''DTYPE_TO_TYPECLASS'')
      | Some tc \<Rightarrow> Inr (to_string ext tc))"

definition cast_to_dtype_str :: "externals \<Rightarrow> scalar \<Rightarrow> tyobj \<Rightarrow> error + string" where
  "cast_to_dtype_str ext v t =
     (if is_complex t \<and> is_complex (s_type v) then Inl (ValueError complex_beta_msg)
      else if is_complex t then
        ebind (typeclass_name ext t)
          (\<lambda>n. Inr (''dace.'' @ n @ ''('' @ s_real v @ '', '' @ s_imag v @ '')''))
      else
        ebind (typeclass_name ext t)
          (\<lambda>n. Inr (''dace.'' @ n @ ''('' @ s_str v @ '')'')))"

section \<open>The pure lowering\<close>

text \<open>
  The subgraph \<^verbatim>\<open>make_sdfg\<close> builds: its declared arrays in the order of their
  declaration, and its two states. A state holds the access nodes \<^verbatim>\<open>add_read\<close>
  added (by their data name) and the mapped tasklets in the order they were added. An
  access node passed as \<^verbatim>\<open>input_nodes\<close> or \<^verbatim>\<open>output_nodes\<close> is the pair of
  the dictionary's key and the node's data name.
\<close>

datatype decl_dtype = Of_type tyobj | Of_typeclass typeclass

record array_decl =
  d_shape :: "int list"
  d_dtype :: decl_dtype
  d_storage :: storage_type
  d_transient :: bool

record memlet =
  m_data :: string
  m_subset :: string
  m_wcr :: "string option"

text \<open>\<^verbatim>\<open>dace.Memlet.simple(data, subset)\<close>, and with \<^verbatim>\<open>wcr_str\<close>.\<close>

definition Memlet_simple :: "string \<Rightarrow> string \<Rightarrow> memlet" where
  "Memlet_simple d sub = \<lparr>m_data = d, m_subset = sub, m_wcr = None\<rparr>"

definition Memlet_simple_wcr :: "string \<Rightarrow> string \<Rightarrow> string \<Rightarrow> memlet" where
  "Memlet_simple_wcr d sub w = \<lparr>m_data = d, m_subset = sub, m_wcr = Some w\<rparr>"

record mapped_tasklet =
  mt_name :: string
  mt_ranges :: "(string \<times> string) list"
  mt_inputs :: "(string \<times> memlet) list"
  mt_code :: string
  mt_outputs :: "(string \<times> memlet) list"
  mt_input_nodes :: "(string \<times> string) option"
  mt_output_nodes :: "(string \<times> string) option"

record state_graph =
  sg_label :: string
  sg_reads :: "string list"
  sg_tasklets :: "mapped_tasklet list"

record pure_sdfg =
  ps_name :: string
  ps_arrays :: "(string \<times> array_decl) list"
  ps_init_state :: state_graph
  ps_state :: state_graph

definition sizes_msg :: string where
  "sizes_msg = ''Matrix sizes must match''"

definition storage_msg :: string where
  "storage_msg = ''Input matrices must have same storage''"

definition broadcast_msg :: string where
  "broadcast_msg = ''Could not broadcast input _c to (M, N)''"

text \<open>Lines 170 to 174: the code of the multiplication tasklet.\<close>

definition mul_program :: "externals \<Rightarrow> gemm \<Rightarrow> tyobj \<Rightarrow> error + string" where
  "mul_program ext node dtype_a =
     (if s_is_one (alpha node) then Inr ''__out = __a * __b''
      else ebind (cast_to_dtype_str ext (alpha node) dtype_a)
             (\<lambda>s. Inr (''__out = '' @ s @ '' * __a * __b'')))"

text \<open>Lines 227 to 239: the index of \<^verbatim>\<open>_c\<close>, broadcast to \<^verbatim>\<open>[M, N]\<close>.\<close>

definition broadcast_idx :: "int list \<Rightarrow> int \<Rightarrow> int \<Rightarrow> error + string" where
  "broadcast_idx shape_c M N =
     (if shape_c = [M, N] then Inr ''__i0, __i1''
      else if shape_c = [1, N] then Inr ''0, __i1''
      else if shape_c = [M, 1] then Inr ''__i0, 0''
      else if shape_c = [N] then Inr ''__i1''
      else Inl (ValueError broadcast_msg))"

text \<open>
  \<^verbatim>\<open>ExpandGemmPure.make_sdfg\<close>. The label of the node is its name. The three
  operands of the \<^verbatim>\<open>or\<close> in the shape test are evaluated in order.
\<close>

definition make_sdfg ::
  "externals \<Rightarrow> gemm \<Rightarrow> sdfg_state \<Rightarrow> (string \<Rightarrow> array_desc option) \<Rightarrow> error + pure_sdfg" where
  "make_sdfg ext node parent_state parent_arrays =
     ebind (get_matmul_inputs ext node parent_state parent_arrays) (\<lambda>inp.
     let outer_array_a = op_array (in_a inp); shape_a = op_shape (in_a inp);
         outer_array_b = op_array (in_b inp); shape_b = op_shape (in_b inp);
         c_inputs = in_c inp;
         dtype_a = Np (ttype (arr_dtype outer_array_a));
         dtype_b = Np (ttype (arr_dtype outer_array_b))
     in
     (case DTYPE_TO_TYPECLASS ext (result_type ext dtype_a dtype_b) of
        None \<Rightarrow> Inl (KeyError ''DTYPE_TO_TYPECLASS'')
      | Some dtype_y \<Rightarrow>
     let trans_shape_a = (if transA node then rev shape_a else shape_a);
         trans_shape_b = (if transB node then rev shape_b else shape_b)
     in
     if length trans_shape_a \<noteq> 2 then Inl (SyntaxError sizes_msg)
     else if length trans_shape_b \<noteq> 2 then Inl (SyntaxError sizes_msg)
     else if trans_shape_a ! 1 \<noteq> trans_shape_b ! 0 then Inl (SyntaxError sizes_msg)
     else
     let M = trans_shape_a ! 0; K = trans_shape_a ! 1; N = trans_shape_b ! 1;
         shape_y = [M, N]
     in
     if arr_storage outer_array_a \<noteq> arr_storage outer_array_b
     then Inl (ValueError storage_msg)
     else
     let storage = arr_storage outer_array_a;
         arrays =
           [(''_a'', \<lparr>d_shape = shape_a, d_dtype = Of_type dtype_a,
                      d_storage = storage, d_transient = False\<rparr>),
            (''_b'', \<lparr>d_shape = shape_b, d_dtype = Of_type dtype_b,
                      d_storage = storage, d_transient = False\<rparr>)]
           @ (case c_inputs of
                None \<Rightarrow> []
              | Some c \<Rightarrow>
                  [(''_c'', \<lparr>d_shape = op_shape c,
                             d_dtype = Of_type (Np (ttype (arr_dtype (op_array c)))),
                             d_storage = storage, d_transient = False\<rparr>)])
           @ [(''_y'', \<lparr>d_shape = shape_y, d_dtype = Of_typeclass dtype_y,
                        d_storage = storage, d_transient = False\<rparr>)]
     in
     ebind (mul_program ext node dtype_a) (\<lambda>mul_prog.
     let direct = (c_inputs = None \<or> s_is_zero (beta node));
         tmp = temp_data_name ext (map fst arrays);
         mul_out = (if direct then ''_y'' else tmp);
         arrays = (if direct then arrays
                   else arrays @ [(tmp, \<lparr>d_shape = shape_y, d_dtype = Of_typeclass dtype_y,
                                          d_storage = storage, d_transient = True\<rparr>)]);
         reads = (if direct then [] else [tmp]);
         output_nodes = (if direct then None else Some (mul_out, tmp));
         gemm_init =
           \<lparr>mt_name = ''gemm_init'',
            mt_ranges = [(''_o0'', ''0:'' @ symstr ext M), (''_o1'', ''0:'' @ symstr ext N)],
            mt_inputs = [],
            mt_code = ''out = 0'',
            mt_outputs = [(''out'', Memlet_simple mul_out ''_o0,_o1'')],
            mt_input_nodes = None, mt_output_nodes = None\<rparr>;
         init_state = \<lparr>sg_label = name node @ ''_initstate'', sg_reads = [],
                       sg_tasklets = [gemm_init]\<rparr>;
         gemm_mul =
           \<lparr>mt_name = ''_GEMM_'',
            mt_ranges = [(''__i0'', ''0:'' @ str_dim ext M), (''__i1'', ''0:'' @ str_dim ext N),
                         (''__i2'', ''0:'' @ str_dim ext K)],
            mt_inputs =
              [(''__a'', Memlet_simple ''_a''
                           (if transA node then ''__i2, __i0'' else ''__i0, __i2'')),
               (''__b'', Memlet_simple ''_b''
                           (if transB node then ''__i1, __i2'' else ''__i2, __i1''))],
            mt_code = mul_prog,
            mt_outputs =
              [(''__out'', Memlet_simple_wcr mul_out ''__i0, __i1'' ''lambda x, y: x + y'')],
            mt_input_nodes = None, mt_output_nodes = output_nodes\<rparr>
     in
     if c_inputs \<noteq> None \<and> \<not> s_is_zero (beta node) then
       ebind (cast_to_dtype_str ext (beta node) dtype_a) (\<lambda>s.
       let add_program = ''__y = ('' @ s @ '' * __c) + __tmp'' in
       ebind (broadcast_idx (op_shape (the c_inputs)) M N) (\<lambda>memlet_idx.
       let gemm_add =
             \<lparr>mt_name = ''_Add_'',
              mt_ranges = [(''__i0'', ''0:'' @ str_dim ext M),
                           (''__i1'', ''0:'' @ str_dim ext N)],
              mt_inputs = [(''__c'', Memlet_simple ''_c'' memlet_idx),
                           (''__tmp'', Memlet_simple mul_out ''__i0, __i1'')],
              mt_code = add_program,
              mt_outputs = [(''__y'', Memlet_simple ''_y'' ''__i0, __i1'')],
              mt_input_nodes = Some (mul_out, tmp), mt_output_nodes = None\<rparr>
       in
       Inr \<lparr>ps_name = name node @ ''_sdfg'', ps_arrays = arrays,
            ps_init_state = init_state,
            ps_state = \<lparr>sg_label = name node @ ''_state'', sg_reads = reads,
                        sg_tasklets = [gemm_mul, gemm_add]\<rparr>\<rparr>))
     else
       Inr \<lparr>ps_name = name node @ ''_sdfg'', ps_arrays = arrays,
            ps_init_state = init_state,
            ps_state = \<lparr>sg_label = name node @ ''_state'', sg_reads = reads,
                        sg_tasklets = [gemm_mul]\<rparr>\<rparr>)))"

definition dtype_unset_msg :: string where
  "dtype_unset_msg = ''Data type must be set to expand''"

text \<open>\<^verbatim>\<open>ExpandGemmPure.expansion\<close>.\<close>

definition ExpandGemmPure_expansion ::
  "externals \<Rightarrow> gemm \<Rightarrow> sdfg_state \<Rightarrow> (string \<Rightarrow> array_desc option) \<Rightarrow> error + pure_sdfg" where
  "ExpandGemmPure_expansion ext node state arrays =
     ebind (validate node state) (\<lambda>_.
       if dtype node = None then Inl (ValueError dtype_unset_msg)
       else make_sdfg ext node state arrays)"

section \<open>Options of the library calls\<close>

text \<open>
  The option dictionary of \<^verbatim>\<open>_get_codegen_gemm_opts\<close>, the field \<open>opt_x\<close> for the
  key \<^verbatim>\<open>x\<close>, and so on. \<open>gemm_opts\<close> has the keys the dictionary holds when the
  swap is applied; \<open>codegen_opts\<close> adds the keys set after it. The keys
  \<^verbatim>\<open>stride_a\<close>, \<^verbatim>\<open>stride_b\<close>, \<^verbatim>\<open>stride_c\<close> are set together with a
  \<^verbatim>\<open>BATCH\<close> that is not \<^verbatim>\<open>None\<close>: \<open>opt_batch\<close> is \<open>None\<close> when
  \<^verbatim>\<open>BATCH\<close> is.
\<close>

record gemm_opts =
  opt_swap :: bool
  opt_ta :: string
  opt_tb :: string
  opt_lda :: string
  opt_ldb :: string
  opt_ldc :: string
  opt_x :: string
  opt_y :: string
  opt_M :: string
  opt_N :: string
  opt_K :: string

record batch_fields =
  bf_stride_a :: string
  bf_stride_b :: string
  bf_stride_c :: string
  bf_BATCH :: string

record codegen_opts = gemm_opts +
  opt_alpha :: string
  opt_beta :: string
  opt_dtype :: string
  opt_func :: string
  opt_batch :: "batch_fields option"

text \<open>\<^verbatim>\<open>xs[-k]\<close> for \<open>k\<close> from 1, which raises when the sequence is shorter.\<close>

definition index_from_end :: "int list \<Rightarrow> nat \<Rightarrow> error + int" where
  "index_from_end xs k = (if length xs < k then Inl IndexError else Inr (xs ! (length xs - k)))"

text \<open>
  Lines 75 to 80, the body of \<^verbatim>\<open>if opt['swap']\<close>: the swap of the batch strides,
  when the batch dictionary is not empty, and of the leading dimensions, the operand
  names, the transpose codes and \<^verbatim>\<open>M\<close> with \<^verbatim>\<open>N\<close>.
\<close>

definition swap_opts :: "gemm_opts \<times> batchmm_opts option \<Rightarrow> gemm_opts \<times> batchmm_opts option" where
  "swap_opts ob =
     (case ob of (opt, bopt) \<Rightarrow>
        (opt\<lparr>opt_lda := opt_ldb opt, opt_ldb := opt_lda opt,
             opt_x := opt_y opt, opt_y := opt_x opt,
             opt_ta := opt_tb opt, opt_tb := opt_ta opt,
             opt_M := opt_N opt, opt_N := opt_M opt\<rparr>,
         (case bopt of
            None \<Rightarrow> None
          | Some bo \<Rightarrow> Some (bo\<lparr>bm_sa := bm_sb bo, bm_sb := bm_sa bo\<rparr>))))"

text \<open>
  \<^verbatim>\<open>_get_codegen_gemm_opts\<close>. The descriptors of \<^verbatim>\<open>_a\<close> and \<^verbatim>\<open>_b\<close> are
  parameters the source does not read.
\<close>

definition get_codegen_gemm_opts ::
  "externals \<Rightarrow> gemm \<Rightarrow> sdfg_state \<Rightarrow> (string \<Rightarrow> array_desc option)
     \<Rightarrow> array_desc \<Rightarrow> array_desc \<Rightarrow> array_desc \<Rightarrow> string \<Rightarrow> string \<Rightarrow> string \<Rightarrow> string
     \<Rightarrow> error + codegen_opts" where
  "get_codegen_gemm_opts ext node state arrays adesc bdesc cdesc al be cdtype func =
     ebind (get_matmul_inputs ext node state arrays) (\<lambda>inp.
     let ashape = op_shape (in_a inp); astride = op_strides (in_a inp);
         bshape = op_shape (in_b inp); bstride = op_strides (in_b inp)
     in
     ebind (get_gemm_opts ext astride bstride (arr_strides cdesc)) (\<lambda>lo.
     ebind (get_batchmm_opts ashape astride bshape bstride
              (Some (arr_shape cdesc)) (arr_strides cdesc)) (\<lambda>bopt.
     ebind (index_from_end ashape 2) (\<lambda>m.
     ebind (index_from_end bshape 1) (\<lambda>n.
     ebind (index_from_end ashape 1) (\<lambda>k.
     let opt = \<lparr>opt_swap = lo_swap lo, opt_ta = lo_ta lo, opt_tb = lo_tb lo,
                opt_lda = sym2cpp ext (lo_lda lo), opt_ldb = sym2cpp ext (lo_ldb lo),
                opt_ldc = sym2cpp ext (lo_ldc lo),
                opt_x = ''_a'', opt_y = ''_b'',
                opt_M = sym2cpp ext m, opt_N = sym2cpp ext n, opt_K = sym2cpp ext k\<rparr>
     in
     (case (if opt_swap opt then swap_opts (opt, bopt) else (opt, bopt)) of (opt, bopt) \<Rightarrow>
        Inr \<lparr>opt_swap = opt_swap opt, opt_ta = opt_ta opt, opt_tb = opt_tb opt,
             opt_lda = opt_lda opt, opt_ldb = opt_ldb opt, opt_ldc = opt_ldc opt,
             opt_x = opt_x opt, opt_y = opt_y opt,
             opt_M = opt_M opt, opt_N = opt_N opt, opt_K = opt_K opt,
             opt_alpha = al, opt_beta = be, opt_dtype = cdtype, opt_func = func,
             opt_batch =
               (case bopt of
                  None \<Rightarrow> None
                | Some bo \<Rightarrow>
                    Some \<lparr>bf_stride_a = sym2cpp ext (bm_sa bo),
                          bf_stride_b = sym2cpp ext (bm_sb bo),
                          bf_stride_c = sym2cpp ext (bm_sc bo),
                          bf_BATCH = sym2cpp ext (bm_b bo)\<rparr>)\<rparr>)))))))"

text \<open>\<^verbatim>\<open>not opt['BATCH']\<close>: \<^verbatim>\<open>None\<close> and the empty string are false.\<close>

definition no_batch :: "codegen_opts \<Rightarrow> bool" where
  "no_batch opt = (case opt_batch opt of None \<Rightarrow> True | Some bf \<Rightarrow> bf_BATCH bf = [])"

section \<open>The library-call tasklet\<close>

datatype language = Python | CPP

record tasklet =
  t_name :: string
  t_inputs :: "string set"
  t_outputs :: "string set"
  t_code :: string
  t_language :: language

definition nl :: string where
  "nl = [CHR 0x0A]"

text \<open>\<^verbatim>\<open>str.lower()\<close> on the letters of ASCII.\<close>

definition lower_char :: "char \<Rightarrow> char" where
  "lower_char c =
     (let n = (of_char c :: nat) in if 65 \<le> n \<and> n \<le> 90 then char_of (n + 32) else c)"

definition lower :: "string \<Rightarrow> string" where
  "lower s = map lower_char s"

section \<open>The MKL lowering\<close>

definition mkl_unsupported_msg :: string where
  "mkl_unsupported_msg = ''Unsupported type for BLAS dot product: ''"

text \<open>Lines 277 to 291: the constants one and zero of the element type.\<close>

definition mkl_constants :: "typeclass \<Rightarrow> error + string \<times> string" where
  "mkl_constants dt =
     (if dt = dace_float32 then Inr (''1.0f'', ''0.0f'')
      else if dt = dace_float64 then Inr (''1.0'', ''0.0'')
      else if dt = dace_complex64 then
        Inr (''dace::blas::BlasConstants::Get().Complex64Pone()'',
             ''dace::blas::BlasConstants::Get().Complex64Zero()'')
      else if dt = dace_complex128 then
        Inr (''dace::blas::BlasConstants::Get().Complex128Pone()'',
             ''dace::blas::BlasConstants::Get().Complex128Zero()'')
      else Inl (ValueError mkl_unsupported_msg))"

text \<open>Lines 303 to 315: the text of the call, looped over the batch when there is one.\<close>

definition mkl_code :: "codegen_opts \<Rightarrow> string" where
  "mkl_code opt =
     (if no_batch opt then
        ''cblas_'' @ (opt_func opt) @ ''(CblasColMajor, '' @ (opt_ta opt) @ '', ''
        @ (opt_tb opt) @ '', '' @ (opt_M opt) @ '', '' @ (opt_N opt) @ '', '' @ (opt_K opt)
        @ '', '' @ (opt_alpha opt) @ '', '' @ (opt_x opt) @ '', '' @ (opt_lda opt) @ '', ''
        @ (opt_y opt) @ '', '' @ (opt_ldb opt) @ '', '' @ (opt_beta opt) @ '', _c, ''
        @ (opt_ldc opt) @ '');''
      else (let bf = the (opt_batch opt) in
        nl @ ''            for (int __ib = 0; __ib < '' @ bf_BATCH bf @ ''; ++__ib) {'' @ nl
        @ ''                cblas_'' @ (opt_func opt) @ ''(CblasColMajor, '' @ (opt_ta opt)
        @ '', '' @ (opt_tb opt) @ '', '' @ (opt_M opt) @ '', '' @ (opt_N opt) @ '', ''
        @ (opt_K opt) @ '', '' @ (opt_alpha opt) @ '','' @ nl
        @ ''                             (('' @ (opt_dtype opt) @ ''*)'' @ (opt_x opt)
        @ '') + __ib*'' @ bf_stride_a bf @ '', '' @ (opt_lda opt) @ '','' @ nl
        @ ''                             (('' @ (opt_dtype opt) @ ''*)'' @ (opt_y opt)
        @ '') + __ib*'' @ bf_stride_b bf @ '', '' @ (opt_ldb opt) @ '','' @ nl
        @ ''                             '' @ (opt_beta opt) @ '','' @ nl
        @ ''                             (('' @ (opt_dtype opt) @ ''*)_c) + __ib*''
        @ bf_stride_c bf @ '', '' @ (opt_ldc opt) @ '');'' @ nl @ ''            }''))"

text \<open>
  \<^verbatim>\<open>ExpandGemmMKL.expansion\<close>. Reading \<^verbatim>\<open>dtype.type\<close> of a node whose element
  type is \<^verbatim>\<open>None\<close> raises; the routine name is computed before the element type is
  tested.
\<close>

definition ExpandGemmMKL_expansion ::
  "externals \<Rightarrow> gemm \<Rightarrow> sdfg_state \<Rightarrow> (string \<Rightarrow> array_desc option) \<Rightarrow> error + tasklet" where
  "ExpandGemmMKL_expansion ext node state arrays =
     ebind (validate node state) (\<lambda>_.
     (case dtype node of
        None \<Rightarrow> Inl AttributeError
      | Some dt \<Rightarrow>
     ebind (to_blastype ext (ttype dt)) (\<lambda>letter.
     let func = lower letter @ ''gemm'' in
     ebind (mkl_constants dt) (\<lambda>(al, be).
     ebind (get_matmul_inputs ext node state arrays) (\<lambda>inp.
     let adesc = op_array (in_a inp); bdesc = op_array (in_b inp) in
     (case arrays (memlet_data (out_edges state ! 0)) of
        None \<Rightarrow> Inl (KeyError (memlet_data (out_edges state ! 0)))
      | Some cdesc \<Rightarrow>
     ebind (get_codegen_gemm_opts ext node state arrays adesc bdesc cdesc al be
              (ctype ext (arr_dtype cdesc)) func) (\<lambda>opt.
     let opt = opt\<lparr>opt_ta := (if opt_ta opt = ''N'' then ''CblasNoTrans'' else ''CblasTrans'')\<rparr>;
         opt = opt\<lparr>opt_tb := (if opt_tb opt = ''N'' then ''CblasNoTrans'' else ''CblasTrans'')\<rparr>
     in
     Inr \<lparr>t_name = name node, t_inputs = in_connectors node,
          t_outputs = out_connectors node, t_code = mkl_code opt,
          t_language = CPP\<rparr>)))))))"

section \<open>The cuBLAS lowering\<close>

definition cublas_unsupported_msg :: string where
  "cublas_unsupported_msg = ''Unsupported type: ''"

definition arrays_msg :: string where
  "arrays_msg = ''Unsupported input/output arrays''"

text \<open>Lines 335 to 351: the C type and the name of the constants' type.\<close>

definition cublas_types :: "typeclass \<Rightarrow> error + string \<times> string" where
  "cublas_types dt =
     (if dt = dace_float16 then Inr (''__half'', ''Half'')
      else if dt = dace_float32 then Inr (''float'', ''Float'')
      else if dt = dace_float64 then Inr (''double'', ''Double'')
      else if dt = dace_complex64 then Inr (''cuComplex'', ''Complex64'')
      else if dt = dace_complex128 then Inr (''cuDoubleComplex'', ''Complex128'')
      else Inl (ValueError cublas_unsupported_msg))"

text \<open>
  Lines 358 to 366, the loop over the input edges: the descriptor of the array at the
  start of the memlet path of an edge into \<^verbatim>\<open>_a\<close> or \<^verbatim>\<open>_b\<close>, when an access
  node stands there.
\<close>

fun find_inputs ::
  "edge list \<Rightarrow> (string \<Rightarrow> array_desc option) \<Rightarrow> array_desc option \<times> array_desc option
     \<Rightarrow> error + array_desc option \<times> array_desc option" where
  "find_inputs [] arrays acc = Inr acc"
| "find_inputs (e # es) arrays (adesc, bdesc) =
     (if conn e = ''_a'' then
        (case path_access e of
           None \<Rightarrow> find_inputs es arrays (adesc, bdesc)
         | Some d \<Rightarrow>
             (case arrays d of
                None \<Rightarrow> Inl (KeyError d)
              | Some desc \<Rightarrow> find_inputs es arrays (Some desc, bdesc)))
      else if conn e = ''_b'' then
        (case path_access e of
           None \<Rightarrow> find_inputs es arrays (adesc, bdesc)
         | Some d \<Rightarrow>
             (case arrays d of
                None \<Rightarrow> Inl (KeyError d)
              | Some desc \<Rightarrow> find_inputs es arrays (adesc, Some desc)))
      else find_inputs es arrays (adesc, bdesc))"

text \<open>
  Lines 367 to 371, the loop over the output edges, which looks for the connector
  \<^verbatim>\<open>_c\<close>.
\<close>

fun find_output ::
  "edge list \<Rightarrow> (string \<Rightarrow> array_desc option) \<Rightarrow> array_desc option
     \<Rightarrow> error + array_desc option" where
  "find_output [] arrays cdesc = Inr cdesc"
| "find_output (e # es) arrays cdesc =
     (if conn e = ''_c'' then
        (case path_access e of
           None \<Rightarrow> find_output es arrays cdesc
         | Some d \<Rightarrow>
             (case arrays d of
                None \<Rightarrow> Inl (KeyError d)
              | Some desc \<Rightarrow> find_output es arrays (Some desc)))
      else find_output es arrays cdesc)"

text \<open>Lines 380 to 398: the text of the call, strided-batched when there is a batch.\<close>

definition cublas_call :: "codegen_opts \<Rightarrow> string" where
  "cublas_call opt =
     (if no_batch opt then
        ''cublas'' @ (opt_func opt) @ ''(__dace_cublas_handle,'' @ nl
        @ ''                CUBLAS_OP_'' @ (opt_ta opt) @ '', CUBLAS_OP_'' @ (opt_tb opt) @ '',''
        @ nl @ ''                '' @ (opt_M opt) @ '', '' @ (opt_N opt) @ '', '' @ (opt_K opt)
        @ '','' @ nl @ ''                '' @ (opt_alpha opt) @ '','' @ nl @ ''                (''
        @ (opt_dtype opt) @ ''*)'' @ (opt_x opt) @ '', '' @ (opt_lda opt) @ '','' @ nl
        @ ''                ('' @ (opt_dtype opt) @ ''*)'' @ (opt_y opt) @ '', '' @ (opt_ldb opt)
        @ '','' @ nl @ ''                '' @ (opt_beta opt) @ '','' @ nl @ ''                (''
        @ (opt_dtype opt) @ ''*)_c, '' @ (opt_ldc opt) @ '');''
      else (let bf = the (opt_batch opt) in
        ''cublas'' @ (opt_func opt) @ ''StridedBatched(__dace_cublas_handle,'' @ nl
        @ ''                CUBLAS_OP_'' @ (opt_ta opt) @ '', CUBLAS_OP_'' @ (opt_tb opt) @ '',''
        @ nl @ ''                '' @ (opt_M opt) @ '', '' @ (opt_N opt) @ '', '' @ (opt_K opt)
        @ '','' @ nl @ ''                '' @ (opt_alpha opt) @ '','' @ nl @ ''                (''
        @ (opt_dtype opt) @ ''*)'' @ (opt_x opt) @ '', '' @ (opt_lda opt) @ '', ''
        @ bf_stride_a bf
        @ '','' @ nl @ ''                ('' @ (opt_dtype opt) @ ''*)'' @ (opt_y opt) @ '', ''
        @ (opt_ldb opt) @ '', '' @ bf_stride_b bf @ '','' @ nl @ ''                ''
        @ (opt_beta opt)
        @ '','' @ nl @ ''                ('' @ (opt_dtype opt) @ ''*)_c, '' @ (opt_ldc opt)
        @ '', '' @ bf_stride_c bf @ '','' @ nl @ ''                '' @ bf_BATCH bf @ '');''))"

text \<open>
  The staging subgraph: its data descriptors in the order they are added, its nodes (an
  access node by the name of its data, and the tasklet), and its edges, each with the
  memlet \<^verbatim>\<open>Memlet.from_array(name, desc)\<close> as the pair of its arguments.
\<close>

datatype nnode = Access_node string | Tasklet_node

record nedge =
  ne_src :: nnode
  ne_src_conn :: "string option"
  ne_dst :: nnode
  ne_dst_conn :: "string option"
  ne_memlet :: "string \<times> array_desc"

record nested_sdfg =
  ns_name :: string
  ns_arrays :: "(string \<times> array_desc) list"
  ns_nodes :: "nnode list"
  ns_tasklet :: tasklet
  ns_edges :: "nedge list"

datatype expansion = Bare tasklet | Staged nested_sdfg

text \<open>Lines 410 to 412: some descriptor is neither in GPU global nor in pinned memory.\<close>

definition off_device :: "array_desc \<Rightarrow> bool" where
  "off_device desc = (arr_storage desc \<notin> {GPU_Global, CPU_Pinned})"

text \<open>Lines 415 to 421, one round of the loop over the three operands.\<close>

definition add_datadescs :: "string \<Rightarrow> array_desc \<Rightarrow> (string \<times> array_desc) list" where
  "add_datadescs nm desc =
     [(nm, desc\<lparr>arr_transient := False\<rparr>),
      (nm @ ''_gpu'', desc\<lparr>arr_transient := True, arr_storage := GPU_Global\<rparr>)]"

text \<open>Lines 413 to 440.\<close>

definition nested_gemm :: "array_desc \<Rightarrow> array_desc \<Rightarrow> array_desc \<Rightarrow> tasklet \<Rightarrow> nested_sdfg" where
  "nested_gemm adesc bdesc cdesc tk =
     \<lparr>ns_name = ''nested_gemm'',
      ns_arrays = add_datadescs ''_a'' adesc @ add_datadescs ''_b'' bdesc
                  @ add_datadescs ''_c'' cdesc,
      ns_nodes = [Access_node ''_a'', Access_node ''_a_gpu'', Access_node ''_b'',
                  Access_node ''_b_gpu'', Access_node ''_c'', Access_node ''_c_gpu'',
                  Tasklet_node],
      ns_tasklet = tk,
      ns_edges =
        [\<lparr>ne_src = Access_node ''_a'', ne_src_conn = None,
          ne_dst = Access_node ''_a_gpu'', ne_dst_conn = None, ne_memlet = (''_a'', adesc)\<rparr>,
         \<lparr>ne_src = Access_node ''_b'', ne_src_conn = None,
          ne_dst = Access_node ''_b_gpu'', ne_dst_conn = None, ne_memlet = (''_b'', bdesc)\<rparr>,
         \<lparr>ne_src = Access_node ''_a_gpu'', ne_src_conn = None,
          ne_dst = Tasklet_node, ne_dst_conn = Some ''_a'', ne_memlet = (''_a_gpu'', adesc)\<rparr>,
         \<lparr>ne_src = Access_node ''_b_gpu'', ne_src_conn = None,
          ne_dst = Tasklet_node, ne_dst_conn = Some ''_b'', ne_memlet = (''_b_gpu'', bdesc)\<rparr>,
         \<lparr>ne_src = Tasklet_node, ne_src_conn = Some ''_c'',
          ne_dst = Access_node ''_c_gpu'', ne_dst_conn = None, ne_memlet = (''_c_gpu'', cdesc)\<rparr>,
         \<lparr>ne_src = Access_node ''_c_gpu'', ne_src_conn = None,
          ne_dst = Access_node ''_c'', ne_dst_conn = None, ne_memlet = (''_c'', cdesc)\<rparr>]\<rparr>"

text \<open>\<^verbatim>\<open>ExpandGemmCuBLAS.expansion\<close>.\<close>

definition ExpandGemmCuBLAS_expansion ::
  "externals \<Rightarrow> gemm \<Rightarrow> sdfg_state \<Rightarrow> (string \<Rightarrow> array_desc option) \<Rightarrow> error + expansion" where
  "ExpandGemmCuBLAS_expansion ext node state arrays =
     ebind (validate node state) (\<lambda>_.
     (case dtype node of
        None \<Rightarrow> Inl AttributeError
      | Some dt \<Rightarrow>
     ebind (to_blastype ext (ttype dt)) (\<lambda>letter.
     let func = letter @ ''gemm'' in
     ebind (cublas_types dt) (\<lambda>(cdtype, factort).
     let al = ''dace::blas::CublasConstants::Get(__dace_cuda_device).'' @ factort @ ''Pone()'';
         be = ''dace::blas::CublasConstants::Get(__dace_cuda_device).'' @ factort @ ''Zero()''
     in
     ebind (find_inputs (in_edges state) arrays (None, None)) (\<lambda>(adesc, bdesc).
     ebind (find_output (out_edges state) arrays None) (\<lambda>cdesc.
     if adesc = None \<or> bdesc = None \<or> cdesc = None then Inl (ValueError arrays_msg)
     else
     let adesc = the adesc; bdesc = the bdesc; cdesc = the cdesc in
     ebind (get_codegen_gemm_opts ext node state arrays adesc bdesc cdesc al be cdtype func)
       (\<lambda>opt.
     let code = handle_setup_code ext node @ cublas_call opt;
         tk = \<lparr>t_name = name node, t_inputs = in_connectors node,
               t_outputs = out_connectors node, t_code = code, t_language = CPP\<rparr>
     in
     if off_device adesc \<or> off_device bdesc \<or> off_device cdesc
     then Inr (Staged (nested_gemm adesc bdesc cdesc tk))
     else Inr (Bare tk))))))))"

section \<open>Concrete inputs\<close>

text \<open>
  Inputs on which the functions are run. The scalars are Python's \<^verbatim>\<open>1\<close>, \<^verbatim>\<open>0\<close>
  and \<^verbatim>\<open>2.0\<close> and numpy's \<^verbatim>\<open>np.complex64(1+2j)\<close>.
\<close>

definition py_one :: scalar where
  "py_one = \<lparr>s_type = Py_int, s_is_one = True, s_is_zero = False,
              s_str = ''1'', s_real = ''1.0'', s_imag = ''0.0''\<rparr>"

definition py_zero :: scalar where
  "py_zero = \<lparr>s_type = Py_int, s_is_one = False, s_is_zero = True,
               s_str = ''0'', s_real = ''0.0'', s_imag = ''0.0''\<rparr>"

definition py_two :: scalar where
  "py_two = \<lparr>s_type = Py_float, s_is_one = False, s_is_zero = False,
              s_str = ''2.0'', s_real = ''2.0'', s_imag = ''0.0''\<rparr>"

definition np_c64 :: scalar where
  "np_c64 = \<lparr>s_type = Np np_complex64, s_is_one = False, s_is_zero = False,
              s_str = ''(1+2j)'', s_real = ''1.0'', s_imag = ''2.0''\<rparr>"

text \<open>An edge whose memlet path ends at the access node of its data.\<close>

definition mk_edge :: "string \<Rightarrow> int list \<Rightarrow> string \<Rightarrow> edge" where
  "mk_edge c sz d = \<lparr>conn = c, squeezed_size = sz, memlet_data = d, path_access = Some d\<rparr>"

text \<open>A row-major array of 64-bit floats.\<close>

definition mk_array :: "int list \<Rightarrow> int list \<Rightarrow> storage_type \<Rightarrow> array_desc" where
  "mk_array shp strd st =
     \<lparr>arr_shape = shp, arr_strides = strd, arr_dtype = dace_float64,
      arr_storage = st, arr_transient = False\<rparr>"

definition mk_operand :: "int list \<Rightarrow> int list \<Rightarrow> storage_type \<Rightarrow> operand" where
  "mk_operand shp strd st = \<lparr>op_array = mk_array shp strd st, op_shape = shp, op_strides = strd\<rparr>"

text \<open>Decimal digits, for the printers of dimensions.\<close>

fun dec_nat :: "nat \<Rightarrow> string" where
  "dec_nat n =
     (if n < 10 then [''0123456789'' ! n]
      else dec_nat (n div 10) @ [''0123456789'' ! (n mod 10)])"

definition dec_int :: "int \<Rightarrow> string" where
  "dec_int i = (if i < 0 then ''-'' @ dec_nat (nat (- i)) else dec_nat (nat i))"

definition nptype_name :: "nptype \<Rightarrow> string" where
  "nptype_name t =
     (case t of
        np_bool \<Rightarrow> ''bool'' | np_int8 \<Rightarrow> ''int8'' | np_int16 \<Rightarrow> ''int16''
      | np_int32 \<Rightarrow> ''int32'' | np_int64 \<Rightarrow> ''int64'' | np_uint8 \<Rightarrow> ''uint8''
      | np_uint16 \<Rightarrow> ''uint16'' | np_uint32 \<Rightarrow> ''uint32'' | np_uint64 \<Rightarrow> ''uint64''
      | np_float16 \<Rightarrow> ''float16'' | np_float32 \<Rightarrow> ''float32'' | np_float64 \<Rightarrow> ''float64''
      | np_complex64 \<Rightarrow> ''complex64'' | np_complex128 \<Rightarrow> ''complex128'')"

definition blas_letter :: "nptype \<Rightarrow> error + string" where
  "blas_letter t =
     (if t = np_float16 then Inr ''H''
      else if t = np_float32 then Inr ''S''
      else if t = np_float64 then Inr ''D''
      else if t = np_complex64 then Inr ''C''
      else if t = np_complex128 then Inr ''Z''
      else Inl (TypeError ''Type not supported in BLAS operations''))"

text \<open>
  A library for the concrete runs: the table of typeclasses has every numpy type, a
  typeclass prints as its numpy type, and dimensions print in decimal.
  \<^verbatim>\<open>_get_matmul_inputs\<close> returns \<open>inp\<close> and \<^verbatim>\<open>get_gemm_opts\<close> returns \<open>lo\<close>;
  the result type of two types is the first, which is right where both are the same.
\<close>

definition lib :: "matmul_inputs \<Rightarrow> layout_opts \<Rightarrow> externals" where
  "lib inp lo =
     \<lparr>DTYPE_TO_TYPECLASS = (\<lambda>t. case t of Np n \<Rightarrow> Some (Typeclass n) | _ \<Rightarrow> None),
      to_string = (\<lambda>tc. nptype_name (ttype tc)),
      ctype = (\<lambda>tc. nptype_name (ttype tc)),
      result_type = (\<lambda>t1 t2. t1),
      to_blastype = blas_letter,
      get_gemm_opts = (\<lambda>sa sb sc. Inr lo),
      get_matmul_inputs = (\<lambda>node state arrays. Inr inp),
      sym2cpp = dec_int,
      symstr = dec_int,
      str_dim = dec_int,
      handle_setup_code = (\<lambda>node. ''cublasSetStream(__dace_cublas_handle, __dace_current_stream);'' @ nl),
      temp_data_name = (\<lambda>names. ''__tmp0'')\<rparr>"

definition swapped_layout :: layout_opts where
  "swapped_layout = \<lparr>lo_swap = True, lo_ta = ''N'', lo_tb = ''N'',
                     lo_lda = 3, lo_ldb = 4, lo_ldc = 4\<rparr>"

text \<open>
  A (2, 3) times B (3, 4), with and without an input \<^verbatim>\<open>_c\<close> of size (2, 4), into
  an output of size (2, 4).
\<close>

definition state_ab :: sdfg_state where
  "state_ab = \<lparr>in_edges = [mk_edge ''_a'' [2, 3] ''A'', mk_edge ''_b'' [3, 4] ''B''],
               out_edges = [mk_edge ''_y'' [2, 4] ''Y'']\<rparr>"

definition state_abc :: sdfg_state where
  "state_abc = \<lparr>in_edges = [mk_edge ''_a'' [2, 3] ''A'', mk_edge ''_b'' [3, 4] ''B'',
                            mk_edge ''_c'' [2, 4] ''C''],
                out_edges = [mk_edge ''_y'' [2, 4] ''Y'']\<rparr>"

text \<open>A (3, 2), to be transposed, times B (3, 4), with \<^verbatim>\<open>_c\<close> and the output of size (2, 4).\<close>

definition state_atbc :: sdfg_state where
  "state_atbc = \<lparr>in_edges = [mk_edge ''_a'' [3, 2] ''A'', mk_edge ''_b'' [3, 4] ''B'',
                             mk_edge ''_c'' [2, 4] ''C''],
                 out_edges = [mk_edge ''_y'' [2, 4] ''Y'']\<rparr>"

definition inputs_ab :: "storage_type \<Rightarrow> storage_type \<Rightarrow> matmul_inputs" where
  "inputs_ab sta stb =
     \<lparr>in_a = mk_operand [2, 3] [3, 1] sta, in_b = mk_operand [3, 4] [4, 1] stb, in_c = None\<rparr>"

definition inputs_abc :: matmul_inputs where
  "inputs_abc =
     \<lparr>in_a = mk_operand [2, 3] [3, 1] Default, in_b = mk_operand [3, 4] [4, 1] Default,
      in_c = Some (mk_operand [2, 4] [4, 1] Default)\<rparr>"

definition arrays_abcy :: "storage_type \<Rightarrow> string \<Rightarrow> array_desc option" where
  "arrays_abcy st =
     [''A'' \<mapsto> mk_array [2, 3] [3, 1] st, ''B'' \<mapsto> mk_array [3, 4] [4, 1] st,
      ''C'' \<mapsto> mk_array [2, 4] [4, 1] st, ''Y'' \<mapsto> mk_array [2, 4] [4, 1] st]"

section \<open>Properties of batch detection\<close>

lemmas bm_defs =
  get_batchmm_opts_def ebind_def index0_def truthy_batch_def truthy_shape_def len_opt_def

text \<open>
  C4, as stated: for operands of rank at most 3, batch detection returns the empty
  dictionary exactly when every operand has rank at most 2. This fails: with \<^verbatim>\<open>A\<close> and
  \<^verbatim>\<open>B\<close> of rank 2 the function returns the empty dictionary before it looks at a
  \<^verbatim>\<open>C\<close> of rank 3.
\<close>

theorem batchmm_rank3_c_counterexample:
  "\<not> (\<forall>a_shape a_strides b_shape b_strides c_shape c_strides.
        length a_shape \<le> 3 \<and> length b_shape \<le> 3 \<and> length c_shape \<le> 3 \<longrightarrow>
        (get_batchmm_opts a_shape a_strides b_shape b_strides (Some c_shape) c_strides = Inr None)
          = (length a_shape \<le> 2 \<and> length b_shape \<le> 2 \<and> length c_shape \<le> 2))"
proof
  assume h: "\<forall>a_shape a_strides b_shape b_strides c_shape c_strides.
        length a_shape \<le> 3 \<and> length b_shape \<le> 3 \<and> length c_shape \<le> 3 \<longrightarrow>
        (get_batchmm_opts a_shape a_strides b_shape b_strides (Some c_shape) c_strides = Inr None)
          = (length a_shape \<le> 2 \<and> length b_shape \<le> 2 \<and> length c_shape \<le> 2)"
  have "get_batchmm_opts [2, 3] [3, 1] [3, 4] [4, 1] (Some [7, 2, 4]) [8, 4, 1] = Inr None"
    by (simp add: bm_defs)
  with h [rule_format, of "[2, 3]" "[3, 4]" "[7, 2, 4]" "[3, 1]" "[4, 1]" "[8, 4, 1]"]
  show False by simp
qed

text \<open>
  C4, amended: for operands of rank at most 3 (each operand of rank 3 with a stride to
  read), batch detection returns the empty dictionary exactly when \<^verbatim>\<open>A\<close> and \<^verbatim>\<open>B\<close>
  have rank at most 2, whatever the rank of \<^verbatim>\<open>C\<close>. Otherwise, when the operands of
  rank 3 agree on their leading dimension \<open>n\<close>, the result has the batch size \<open>n\<close>, the
  leading stride of every operand of rank 3, and the stride 0 for every other operand.
\<close>

theorem batchmm_opts_result:
  assumes "length a_shape \<le> 3" and "length b_shape \<le> 3" and "len_opt c_shape \<le> 3"
    and "length a_shape = 3 \<longrightarrow> a_strides \<noteq> []"
    and "length b_shape = 3 \<longrightarrow> b_strides \<noteq> []"
    and "len_opt c_shape = 3 \<longrightarrow> c_strides \<noteq> []"
  shows "((get_batchmm_opts a_shape a_strides b_shape b_strides c_shape c_strides = Inr None)
           = (length a_shape \<le> 2 \<and> length b_shape \<le> 2))
    \<and> (\<not> (length a_shape \<le> 2 \<and> length b_shape \<le> 2) \<and>
         (length a_shape = 3 \<longrightarrow> a_shape ! 0 = n) \<and>
         (length b_shape = 3 \<longrightarrow> b_shape ! 0 = n) \<and>
         (len_opt c_shape = 3 \<longrightarrow> the c_shape ! 0 = n) \<longrightarrow>
         get_batchmm_opts a_shape a_strides b_shape b_strides c_shape c_strides =
           Inr (Some \<lparr>bm_sa = (if length a_shape = 3 then a_strides ! 0 else 0),
                      bm_sb = (if length b_shape = 3 then b_strides ! 0 else 0),
                      bm_sc = (if len_opt c_shape = 3 then c_strides ! 0 else 0),
                      bm_b = n\<rparr>))"
  using assms
  by (auto simp: bm_defs split: list.splits sum.splits option.splits prod.splits)

theorem batchmm_opts_result_witness:
  "get_batchmm_opts [2, 3] [3, 1] [3, 4] [4, 1] (Some [7, 2, 4]) [8, 4, 1] = Inr None
   \<and> get_batchmm_opts [4, 2, 3] [6, 3, 1] [3, 5] [5, 1] (Some [4, 2, 5]) [10, 5, 1]
       = Inr (Some \<lparr>bm_sa = 6, bm_sb = 0, bm_sc = 10, bm_b = 4\<rparr>)"
  using batchmm_opts_result [of "[2, 3]" "[3, 4]" "Some [7, 2, 4]" "[3, 1]" "[4, 1]" "[8, 4, 1]" 0]
    batchmm_opts_result [of "[4, 2, 3]" "[3, 5]" "Some [4, 2, 5]" "[6, 3, 1]" "[5, 1]" "[10, 5, 1]" 4]
  by (simp add: len_opt_def)

text \<open>
  C5: batch detection should raise for every pair of operands of rank 3 whose leading
  dimensions differ. The mismatch test reads the truth value of the running batch, so a
  leading dimension 0 of \<^verbatim>\<open>A\<close> is taken for no batch at all: \<^verbatim>\<open>A\<close> of shape
  \<open>(0, 2, 2)\<close> against \<^verbatim>\<open>B\<close> of shape \<open>(5, 2, 2)\<close> returns the batch size 5.
\<close>

theorem batchmm_zero_batch_no_mismatch:
  "get_batchmm_opts [0, 2, 2] [4, 2, 1] [5, 2, 2] [4, 2, 1] (Some [2, 2]) [2, 1]
     = Inr (Some \<lparr>bm_sa = 4, bm_sb = 4, bm_sc = 0, bm_b = 5\<rparr>)"
  by (simp add: bm_defs)

section \<open>Properties of the swap\<close>

text \<open>
  C8: the swap of option building is self-inverse. Applied twice to any option
  dictionary and any batch dictionary, it returns both unchanged, and so the values of
  \<^verbatim>\<open>M\<close>, \<^verbatim>\<open>N\<close>, the transpose codes, the leading dimensions and the batch strides.
\<close>

theorem swap_opts_self_inverse: "swap_opts (swap_opts (opt, bopt)) = (opt, bopt)"
  by (cases bopt) (simp_all add: swap_opts_def)

end
